theory Spec2Isabelle
  imports Main "HOL-Library.Word" "HOL-Library.Char_ord" "HOL-Library.List_Lexorder"
    "HOL-Library.Sublist" "HOL-Library.AList"
begin

section \<open>Values of the script\<close>

text \<open>
  The script \<^verbatim>\<open>yasm_build.py\<close> is one module whose statements run from top to bottom.
  Python strings are modelled as \<^typ>\<open>string\<close>, byte strings as lists of 8-bit words, and
  a \<^verbatim>\<open>pathlib\<close> path below the script's directory as the list of its components.
\<close>

type_synonym bytes = "8 word list"
type_synonym path = "string list"

definition msvc_build :: string where "msvc_build = ''14.28''"
definition vs_version :: string where "vs_version = ''2019''"
definition yasm_version :: string where "yasm_version = ''1.3.0''"

definition bslash :: char where "bslash = CHR 0x5C"
definition dquote :: char where "dquote = CHR 0x22"
definition squote :: char where "squote = CHR 0x27"
definition newline :: char where "newline = CHR 0x0A"

text \<open>The parsed command line (\<^verbatim>\<open>args\<close>); \<^verbatim>\<open>jobs\<close> holds \<^verbatim>\<open>str(args.jobs)\<close>.\<close>

record args =
  no_clone :: bool
  clean :: bool
  prompt :: bool
  install :: bool
  patch :: "string list option"
  universal :: bool
  sign :: bool
  jobs :: string

subsection \<open>The file system below the script's directory\<close>

text \<open>
  A file carries its bytes and the answer of \<^verbatim>\<open>os.access(f, os.X_OK)\<close>; a directory lists
  its entries in the order the operating system reports them. There are no symbolic links.
\<close>

datatype node = File (content: bytes) (x_ok: bool) | Dir (entries: "(string \<times> node) list")

primrec is_dir :: "node \<Rightarrow> bool" where
  "is_dir (File b x) = False"
| "is_dir (Dir es) = True"

primrec lookup :: "path \<Rightarrow> node \<Rightarrow> node option" where
  "lookup [] t = Some t"
| "lookup (n # p) t =
     (case t of
        File _ _ \<Rightarrow> None
      | Dir es \<Rightarrow> (case map_of es n of None \<Rightarrow> None | Some c \<Rightarrow> lookup p c))"

primrec remove :: "path \<Rightarrow> node \<Rightarrow> node" where
  "remove [] t = t"
| "remove (n # p) t =
     (case t of
        File _ _ \<Rightarrow> t
      | Dir es \<Rightarrow>
          if p = [] then Dir (AList.delete n es)
          else (case map_of es n of
                  None \<Rightarrow> t
                | Some c \<Rightarrow> Dir (AList.update n (remove p c) es)))"

primrec put :: "path \<Rightarrow> node \<Rightarrow> node \<Rightarrow> node" where
  "put [] v t = v"
| "put (n # p) v t =
     (case t of
        File _ _ \<Rightarrow> t
      | Dir es \<Rightarrow>
          if p = [] then Dir (AList.update n v es)
          else (case map_of es n of
                  None \<Rightarrow> t
                | Some c \<Rightarrow> Dir (AList.update n (put p v c) es)))"

primrec chain :: "path \<Rightarrow> node" where
  "chain [] = Dir []"
| "chain (n # p) = Dir [(n, chain p)]"

text \<open>
  \<^verbatim>\<open>Path.mkdir(parents=True)\<close>: missing ancestors are created, an existing target or a
  file on the way is an \<^verbatim>\<open>OSError\<close> (\<open>None\<close>).
\<close>

primrec mkdir_parents :: "path \<Rightarrow> node \<Rightarrow> node option" where
  "mkdir_parents [] t = None"
| "mkdir_parents (n # p) t =
     (case t of
        File _ _ \<Rightarrow> None
      | Dir es \<Rightarrow>
          (case map_of es n of
             None \<Rightarrow> Some (Dir (es @ [(n, chain p)]))
           | Some c \<Rightarrow> map_option (\<lambda>c'. Dir (AList.update n c' es)) (mkdir_parents p c)))"

text \<open>\<^verbatim>\<open>Path.mkdir()\<close>: the parent has to be a directory and the target must not exist.\<close>

definition mkdir_plain :: "path \<Rightarrow> node \<Rightarrow> node option" where
  "mkdir_plain p t =
     (if p = [] \<or> lookup p t \<noteq> None then None
      else (case lookup (butlast p) t of
              Some (Dir _) \<Rightarrow> Some (put p (Dir []) t)
            | _ \<Rightarrow> None))"

subsection \<open>What a run observes and what it leaves behind\<close>

text \<open>
  An uncaught Python exception ends the process with a traceback and a non-zero status;
  \<^verbatim>\<open>sys.exit(n)\<close> ends it with status \<open>n\<close>. The subclasses of \<^verbatim>\<open>OSError\<close> are not told apart.
\<close>

datatype exn = OSError | EOFError | KeyError | CalledProcessError | UnicodeDecodeError | ValueError

datatype status = Exit nat | Uncaught exn

datatype 'a result = Done 'a | Halt status

record zipinfo =
  filename :: string
  compress_type :: nat
  external_attr :: int

definition ZIP_DEFLATED :: nat where "ZIP_DEFLATED = 8"

text \<open>
  The trace of a run: a line printed, a line read from standard input (\<open>None\<close> at end of
  input), an external process with its working directory and exit status, and the calls on
  the archive.
\<close>

datatype event =
    Out string
  | Ask string "string option"
  | Call "string list" "string option" int
  | ZipOpen string nat
  | ZipWrite zipinfo bytes
  | ZipClose

text \<open>
  Everything the script cannot decide itself is a field of the world: the platform, the
  directory of the script, and the answers of the tools it starts. A tool is asked with the
  number of tools started before it, its arguments, its working directory and the tree, and
  answers with its exit status, its output and the tree it leaves. The two commands that are
  run for their output only (\<^verbatim>\<open>vcvars64.bat && set\<close>, \<^verbatim>\<open>xcode-select -p\<close>) answer with a
  status and the output. Tools that cannot be started at all are not modelled.
\<close>

record world =
  platform :: string
  base :: string
  tool :: "nat \<Rightarrow> string list \<Rightarrow> string option \<Rightarrow> node \<Rightarrow> int \<times> bytes \<times> node"
  rmdir_ok :: "nat \<Rightarrow> bool"
  vcvars :: "int \<times> bytes"
  xcode_select :: "int \<times> bytes"
  decode :: "bytes \<Rightarrow> string option"
  clt_sdk :: bool
  xcode_app :: bool
  helper_exists :: "nat \<Rightarrow> bool"
  resolve :: "string \<Rightarrow> string"
  glob_magic :: "nat \<Rightarrow> string \<Rightarrow> string list"
  zip_bytes :: "(zipinfo \<times> bytes) list \<Rightarrow> bytes"

record state =
  fs :: node
  stdin :: "string list"
  trace :: "event list"
  tick :: nat
  environ :: "string \<Rightarrow> string option"
  archive :: "(zipinfo \<times> bytes) list"

type_synonym 'a prog = "state \<Rightarrow> 'a result \<times> state"

definition ret :: "'a \<Rightarrow> 'a prog" where
  "ret a s = (Done a, s)"

definition halt :: "status \<Rightarrow> 'a prog" where
  "halt e s = (Halt e, s)"

definition bind :: "'a prog \<Rightarrow> ('a \<Rightarrow> 'b prog) \<Rightarrow> 'b prog" where
  "bind m f s = (case m s of (Done a, s') \<Rightarrow> f a s' | (Halt e, s') \<Rightarrow> (Halt e, s'))"

definition seq :: "unit prog \<Rightarrow> 'b prog \<Rightarrow> 'b prog" where
  "seq m n = bind m (\<lambda>_. n)"

definition whenever :: "bool \<Rightarrow> unit prog \<Rightarrow> unit prog" where
  "whenever c m = (if c then m else ret ())"

primrec block :: "unit prog list \<Rightarrow> unit prog" where
  "block [] = ret ()"
| "block (m # ms) = seq m (block ms)"

primrec foreach :: "'a list \<Rightarrow> ('a \<Rightarrow> unit prog) \<Rightarrow> unit prog" where
  "foreach [] f = ret ()"
| "foreach (x # xs) f = seq (f x) (foreach xs f)"

text \<open>A \<^verbatim>\<open>with\<close> block: the exit handler runs whether or not the body raised.\<close>

definition ensuring :: "'a prog \<Rightarrow> unit prog \<Rightarrow> 'a prog" where
  "ensuring m fin s =
     (case m s of (r, s') \<Rightarrow>
        (case fin s' of (Done _, s'') \<Rightarrow> (r, s'') | (Halt e, s'') \<Rightarrow> (Halt e, s'')))"

definition emit :: "event \<Rightarrow> unit prog" where
  "emit e s = (Done (), s\<lparr>trace := trace s @ [e]\<rparr>)"

definition out :: "string \<Rightarrow> unit prog" where
  "out l = emit (Out l)"

text \<open>\<^verbatim>\<open>input(prompt)\<close>: one line of standard input, \<^verbatim>\<open>EOFError\<close> when there is none.\<close>

definition input :: "string \<Rightarrow> string prog" where
  "input q s =
     (case stdin s of
        [] \<Rightarrow> (Halt (Uncaught EOFError), s\<lparr>trace := trace s @ [Ask q None]\<rparr>)
      | l # ls \<Rightarrow> (Done l, s\<lparr>stdin := ls, trace := trace s @ [Ask q (Some l)]\<rparr>))"

text \<open>\<^verbatim>\<open>subprocess.run\<close> with captured output, and \<^verbatim>\<open>subprocess.call\<close>.\<close>

definition run_tool :: "world \<Rightarrow> string list \<Rightarrow> string option \<Rightarrow> (int \<times> bytes) prog" where
  "run_tool w argv cwd s =
     (case tool w (tick s) argv cwd (fs s) of (rc, outp, t) \<Rightarrow>
        (Done (rc, outp),
         s\<lparr>fs := t, tick := Suc (tick s), trace := trace s @ [Call argv cwd rc]\<rparr>))"

definition call :: "world \<Rightarrow> string list \<Rightarrow> string option \<Rightarrow> int prog" where
  "call w argv cwd = bind (run_tool w argv cwd) (\<lambda>(rc, outp). ret rc)"

text \<open>\<^verbatim>\<open>subprocess.check_output\<close> of a command that only reports.\<close>

definition check_output :: "string list \<Rightarrow> int \<times> bytes \<Rightarrow> bytes prog" where
  "check_output argv ans =
     seq (emit (Call argv None (fst ans)))
       (if fst ans = 0 then ret (snd ans) else halt (Uncaught CalledProcessError))"

definition get_fs :: "node prog" where
  "get_fs s = (Done (fs s), s)"

definition set_fs :: "node \<Rightarrow> unit prog" where
  "set_fs t s = (Done (), s\<lparr>fs := t\<rparr>)"

definition exists :: "path \<Rightarrow> bool prog" where
  "exists p = bind get_fs (\<lambda>t. ret (lookup p t \<noteq> None))"

definition os_error :: "'a prog" where
  "os_error = halt (Uncaught OSError)"

definition mkdir :: "bool \<Rightarrow> path \<Rightarrow> unit prog" where
  "mkdir parents p =
     bind get_fs (\<lambda>t.
       case (if parents then mkdir_parents p t else mkdir_plain p t) of
         None \<Rightarrow> os_error
       | Some t' \<Rightarrow> set_fs t')"

definition unlink :: "path \<Rightarrow> unit prog" where
  "unlink p =
     bind get_fs (\<lambda>t.
       case lookup p t of
         Some (File _ _) \<Rightarrow> set_fs (remove p t)
       | _ \<Rightarrow> os_error)"

definition rmtree :: "path \<Rightarrow> unit prog" where
  "rmtree p =
     bind get_fs (\<lambda>t.
       case lookup p t of
         Some (Dir _) \<Rightarrow> set_fs (remove p t)
       | _ \<Rightarrow> os_error)"

definition read_file :: "path \<Rightarrow> bytes prog" where
  "read_file p =
     bind get_fs (\<lambda>t.
       case lookup p t of
         Some (File b _) \<Rightarrow> ret b
       | _ \<Rightarrow> os_error)"

definition access_x :: "path \<Rightarrow> bool prog" where
  "access_x p =
     bind get_fs (\<lambda>t.
       ret (case lookup p t of
              None \<Rightarrow> False
            | Some (File _ x) \<Rightarrow> x
            | Some (Dir _) \<Rightarrow> True))"

section \<open>Library functions the script calls\<close>

subsection \<open>Strings and byte strings\<close>

definition code :: "char \<Rightarrow> nat" where
  "code c = of_char c"

definition is_alnum :: "char \<Rightarrow> bool" where
  "is_alnum c = ((48 \<le> code c \<and> code c \<le> 57) \<or> (65 \<le> code c \<and> code c \<le> 90)
     \<or> (97 \<le> code c \<and> code c \<le> 122))"

text \<open>\<^verbatim>\<open>str.lower\<close> and \<^verbatim>\<open>str.upper\<close> on the ASCII letters.\<close>

definition lower :: "char \<Rightarrow> char" where
  "lower c = (if 65 \<le> code c \<and> code c \<le> 90 then char_of (code c + 32) else c)"

definition upper :: "char \<Rightarrow> char" where
  "upper c = (if 97 \<le> code c \<and> code c \<le> 122 then char_of (code c - 32) else c)"

text \<open>\<^verbatim>\<open>s.strip(chars)\<close>.\<close>

definition strip :: "'a set \<Rightarrow> 'a list \<Rightarrow> 'a list" where
  "strip cs s = rev (dropWhile (\<lambda>c. c \<in> cs) (rev (dropWhile (\<lambda>c. c \<in> cs) s)))"

definition str_space :: "char set" where
  "str_space = {c. code c \<in> {9, 10, 11, 12, 13, 28, 29, 30, 31, 32}}"

definition bytes_space :: "8 word set" where
  "bytes_space = {9, 10, 11, 12, 13, 32}"

text \<open>\<^verbatim>\<open>s.replace(old, "")\<close>: the occurrences of \<open>old\<close> are cut out from left to right.\<close>

function remove_all :: "'a list \<Rightarrow> 'a list \<Rightarrow> 'a list" where
  "remove_all old [] = []"
| "remove_all old (c # cs) =
     (if old \<noteq> [] \<and> prefix old (c # cs) then remove_all old (drop (length old) (c # cs))
      else c # remove_all old cs)"
  by pat_completeness auto
termination
  by (relation "measure (\<lambda>(old, s). length s)") (auto simp: less_Suc_eq_le neq_Nil_conv)

text \<open>\<^verbatim>\<open>b.split(b'\r\n')\<close> and \<^verbatim>\<open>b.split(b'=')\<close>.\<close>

fun split_crlf :: "bytes \<Rightarrow> bytes list" where
  "split_crlf [] = [[]]"
| "split_crlf [a] = [[a]]"
| "split_crlf (a # b # r) =
     (if a = 13 \<and> b = 10 then [] # split_crlf r
      else (case split_crlf (b # r) of [] \<Rightarrow> [[a]] | l # ls \<Rightarrow> (a # l) # ls))"

fun split_on :: "'a \<Rightarrow> 'a list \<Rightarrow> 'a list list" where
  "split_on d [] = [[]]"
| "split_on d (c # cs) =
     (if c = d then [] # split_on d cs
      else (case split_on d cs of [] \<Rightarrow> [[c]] | l # ls \<Rightarrow> (c # l) # ls))"

text \<open>\<^verbatim>\<open>d.join(parts)\<close>.\<close>

fun join :: "'a list \<Rightarrow> 'a list list \<Rightarrow> 'a list" where
  "join d [] = []"
| "join d [x] = x"
| "join d (x # y # r) = x @ d @ join d (y # r)"

text \<open>\<^verbatim>\<open>b.decode('charmap')\<close>: every byte is the character of the same number.\<close>

definition charmap :: "bytes \<Rightarrow> string" where
  "charmap b = map (\<lambda>x. char_of (unat x)) b"

text \<open>\<^verbatim>\<open>shlex.quote\<close>.\<close>

definition shlex_safe :: "char \<Rightarrow> bool" where
  "shlex_safe c = (is_alnum c \<or> c \<in> set ''_@%+=:,./-'')"

definition shlex_quote :: "string \<Rightarrow> string" where
  "shlex_quote s =
     (if s = [] then [squote, squote]
      else if list_all shlex_safe s then s
      else [squote]
        @ concat (map (\<lambda>c. if c = squote then [squote, dquote, squote, dquote, squote] else [c]) s)
        @ [squote])"

subsection \<open>Paths\<close>

definition is_win :: "world \<Rightarrow> bool" where
  "is_win w = prefix ''win'' (platform w)"

definition sep :: "world \<Rightarrow> char" where
  "sep w = (if is_win w then bslash else CHR ''/'')"

definition is_sep :: "world \<Rightarrow> char \<Rightarrow> bool" where
  "is_sep w c = (c = CHR ''/'' \<or> (is_win w \<and> c = bslash))"

text \<open>
  \<^verbatim>\<open>os.path.join(a, b)\<close>. On Windows the drive letters that \<^verbatim>\<open>ntpath.join\<close> also looks at are
  left out: the second argument is always a name read from a directory or a fixed word.
\<close>

definition os_path_join :: "world \<Rightarrow> string \<Rightarrow> string \<Rightarrow> string" where
  "os_path_join w a b =
     (if b \<noteq> [] \<and> is_sep w (hd b) then b
      else if a = [] \<or> is_sep w (last a) then a @ b
      else a @ [sep w] @ b)"

text \<open>\<^verbatim>\<open>str(base_dir / c1 / ... / cn)\<close>.\<close>

definition path_str :: "world \<Rightarrow> path \<Rightarrow> string" where
  "path_str w p = foldl (\<lambda>acc n. if acc \<noteq> [] \<and> last acc = sep w then acc @ n else acc @ [sep w] @ n)
     (base w) p"

text \<open>\<^verbatim>\<open>PurePath.suffix\<close> of a path whose last component is \<open>name\<close>.\<close>

definition rfind :: "'a \<Rightarrow> 'a list \<Rightarrow> nat option" where
  "rfind c s =
     (if c \<in> set s then Some (length s - 1 - length (takeWhile (\<lambda>x. x \<noteq> c) (rev s))) else None)"

definition path_suffix :: "string \<Rightarrow> string" where
  "path_suffix name =
     (case rfind (CHR ''.'') name of
        None \<Rightarrow> []
      | Some i \<Rightarrow> if 0 < i \<and> i < length name - 1 then drop i name else [])"

text \<open>
  The order of \<^verbatim>\<open>sorted\<close> on the entries of one directory: paths compare by their
  components, which Windows lower-cases first; \<^verbatim>\<open>sorted\<close> keeps equal elements in place.
\<close>

definition normcase :: "world \<Rightarrow> string \<Rightarrow> string" where
  "normcase w n = (if is_win w then map lower n else n)"

text \<open>
  \<^verbatim>\<open>os.walk(top)\<close>, top down: each directory with its path, its component list and the names
  of its entries that are not directories. A top that is not a directory yields nothing.
\<close>

fun walk :: "world \<Rightarrow> string \<Rightarrow> path \<Rightarrow> node \<Rightarrow> (string \<times> path \<times> string list) list" where
  "walk w root p (File b x) = []"
| "walk w root p (Dir es) =
     (root, p, map fst (filter (\<lambda>(n, c). \<not> is_dir c) es))
     # concat (map (\<lambda>(n, c). if is_dir c then walk w (os_path_join w root n) (p @ [n]) c else []) es)"

text \<open>\<^verbatim>\<open>zipfile.ZipInfo(name)\<close> cuts the name at a null character and writes \<open>/\<close> for the
  separator of the platform.\<close>

definition ZipInfo :: "world \<Rightarrow> string \<Rightarrow> zipinfo" where
  "ZipInfo w name =
     \<lparr>filename = map (\<lambda>c. if c = sep w then CHR ''/'' else c) (takeWhile (\<lambda>c. c \<noteq> CHR 0x00) name),
      compress_type = 0, external_attr = 0\<rparr>"

section \<open>The functions of the script\<close>

definition get_tick :: "nat prog" where
  "get_tick s = (Done (tick s), s)"

definition getenv :: "string \<Rightarrow> string prog" where
  "getenv k s = (case environ s k of None \<Rightarrow> (Halt (Uncaught KeyError), s) | Some v \<Rightarrow> (Done v, s))"

text \<open>
  \<^verbatim>\<open>rmdir /S /Q "path"\<close> from the shell: the directory goes when the command succeeds and
  stays as it is otherwise; the script does not look at the exit status.
\<close>

definition win_rmdir :: "world \<Rightarrow> path \<Rightarrow> unit prog" where
  "win_rmdir w p s =
     (let ok = (rmdir_ok w (tick s) \<and> (case lookup p (fs s) of Some (Dir _) \<Rightarrow> True | _ \<Rightarrow> False))
      in (Done (),
          s\<lparr>fs := (if ok then remove p (fs s) else fs s), tick := Suc (tick s),
            trace := trace s @ [Call [''rmdir /S /Q '' @ [dquote] @ path_str w p @ [dquote]] None
                                  (if ok then 0 else 1)]\<rparr>))"

definition remove_dir :: "world \<Rightarrow> path \<Rightarrow> unit prog" where
  "remove_dir w p = (if platform w = ''win32'' then win_rmdir w p else rmtree p)"

definition keychain_unlocker :: "world \<Rightarrow> bool prog" where
  "keychain_unlocker w =
     bind (getenv ''HOME'') (\<lambda>home.
     bind get_tick (\<lambda>n.
       if helper_exists w n
       then bind (call w [home @ ''/unlock-keychain''] None) (\<lambda>rc. ret (rc = 0))
       else ret False))"

text \<open>\<^verbatim>\<open>glob.glob(path)\<close>: a path without \<open>*\<close>, \<open>?\<close> or \<open>[\<close> matches itself when it exists.\<close>

definition glob_glob :: "world \<Rightarrow> string \<Rightarrow> path \<Rightarrow> string list prog" where
  "glob_glob w pstr p =
     bind get_fs (\<lambda>t.
     bind get_tick (\<lambda>n.
       if list_ex (\<lambda>c. c \<in> set ''*?['') pstr then ret (glob_magic w n pstr)
       else ret (if lookup p t \<noteq> None then [pstr] else [])))"

definition mac_sign :: "world \<Rightarrow> string \<Rightarrow> path \<Rightarrow> bool \<Rightarrow> bool \<Rightarrow> bool prog" where
  "mac_sign w pstr p deep force =
     bind (keychain_unlocker w) (\<lambda>unlocked.
       if \<not> unlocked then ret False
       else
         bind (if suffix ''.dmg'' pstr then ret [pstr] else glob_glob w pstr p) (\<lambda>fs.
         bind (call w
                 ([''codesign''] @ (if deep then [''--deep''] else []) @ (if force then [''-f''] else [])
                  @ [''--options'', ''runtime'', ''--timestamp'', ''-s'', ''Developer ID''] @ fs)
                 None) (\<lambda>rc.
         ret (rc = 0))))"

definition timeServers :: "string list" where
  "timeServers = [''http://timestamp.digicert.com'', ''http://timestamp.comodoca.com/rfc3161'']"

definition signTool :: string where
  "signTool = join [bslash] [''c:'', ''Program Files (x86)'', ''Windows Kits'', ''10'', ''bin'',
     ''10.0.18362.0'', ''x64'', ''signtool.exe'']"

text \<open>\<^verbatim>\<open>os.path.expandvars\<close> of the certificate's path: an unset variable stays as written.\<close>

definition signingCert :: "state \<Rightarrow> string" where
  "signingCert s =
     (case environ s ''USERPROFILE'' of None \<Rightarrow> ''%USERPROFILE%'' | Some v \<Rightarrow> v)
     @ [bslash] @ ''signingcerts'' @ [bslash] @ ''codesign.pfx''"

definition signtool_argv :: "string \<Rightarrow> string \<Rightarrow> string \<Rightarrow> string list" where
  "signtool_argv cert timeServer pstr =
     [signTool, ''sign'', ''/fd'', ''sha256'', ''/f'', cert, ''/tr'', timeServer, ''/td'', ''sha256'', pstr]"

text \<open>The loop of \<^verbatim>\<open>signWindowsFiles\<close> over the servers that are left.\<close>

primrec try_servers :: "world \<Rightarrow> string \<Rightarrow> string \<Rightarrow> string list \<Rightarrow> bool prog" where
  "try_servers w cert pstr [] = seq (out (''Failed to sign file '' @ pstr)) (ret False)"
| "try_servers w cert pstr (timeServer # rest) =
     bind (run_tool w (signtool_argv cert timeServer pstr) None) (\<lambda>(rc, stdout).
       if rc = 0 then seq (out (''Signed '' @ pstr)) (ret True)
       else seq (out (''Signing '' @ pstr @ '' with timeserver: '' @ timeServer
                       @ '' failed. Trying next server. '' @ charmap stdout))
              (try_servers w cert pstr rest))"

definition signWindowsFiles :: "world \<Rightarrow> string \<Rightarrow> bool prog" where
  "signWindowsFiles w pstr s = try_servers w (signingCert s) pstr timeServers s"

section \<open>The statements of the module, in their order\<close>

definition yasm_dir :: path where "yasm_dir = [''build'']"
definition source_path :: path where "source_path = yasm_dir @ [''src'']"
definition build_path :: path where "build_path = source_path @ [''build'']"
definition artifact_path :: path where "artifact_path = [''artifacts'']"
definition install_path :: path where "install_path = yasm_dir @ [''install'', ''yasm'', yasm_version]"
definition patches_path :: path where "patches_path = [''patches'']"

definition make_cmd :: string where "make_cmd = ''ninja''"

definition parallel :: "world \<Rightarrow> args \<Rightarrow> string list" where
  "parallel w a = (if is_win w then [] else [''-j'', jobs a])"

definition cmake_generator_array :: "string list" where
  "cmake_generator_array = [''-G'', ''Ninja'']"

subsection \<open>Lines 89 to 105: the variables of the compiler environment\<close>

definition vcvars_cmd :: string where
  "vcvars_cmd = ''call '' @ [dquote]
     @ join [bslash] [''C:'', ''Program Files (x86)'', ''Microsoft Visual Studio'', vs_version,
         ''Professional'', ''VC'', ''Auxiliary'', ''Build'', ''vcvars64.bat'']
     @ [dquote] @ '' -vcvars_ver='' @ msvc_build @ '' && set''"

definition decoded :: "world \<Rightarrow> bytes \<Rightarrow> string prog" where
  "decoded w b = (case decode w b of None \<Rightarrow> halt (Uncaught UnicodeDecodeError) | Some v \<Rightarrow> ret v)"

text \<open>
  \<^verbatim>\<open>os.environ[key] = value\<close> on Windows: the name is stored in upper case, and an empty
  name is a \<^verbatim>\<open>ValueError\<close>.
\<close>

definition setenv :: "string \<Rightarrow> string \<Rightarrow> unit prog" where
  "setenv k v s =
     (if k = [] then (Halt (Uncaught ValueError), s)
      else (Done (), s\<lparr>environ := (environ s)(map upper k \<mapsto> v)\<rparr>))"

definition import_line :: "world \<Rightarrow> bytes \<Rightarrow> unit prog" where
  "import_line w line0 =
     (let line = strip bytes_space line0 in
      if 0x3D \<notin> set line then ret ()
      else
        (case split_on 0x3D line of
           [] \<Rightarrow> ret ()
         | part0 # parts \<Rightarrow>
             bind (decoded w part0) (\<lambda>key.
             bind (decoded w (join [0x3D] parts)) (\<lambda>val.
             setenv key val))))"

definition import_vcvars :: "world \<Rightarrow> unit prog" where
  "import_vcvars w =
     whenever (is_win w)
       (bind (check_output [vcvars_cmd] (vcvars w)) (\<lambda>out.
        foreach (split_crlf out) (import_line w)))"

subsection \<open>Lines 111 to 122: the SDK on macOS\<close>

definition clt_sdk_path :: string where
  "clt_sdk_path = ''/Library/Developer/CommandLineTools/SDKs/MacOSX.sdk''"

definition find_sysroot :: "world \<Rightarrow> string option prog" where
  "find_sysroot w =
     (if platform w = ''darwin'' then
        bind (if clt_sdk w then
                seq (whenever (xcode_app w)
                       (out ''!! Xcode and CommandLineTools both installed. Defaulting to CommandLineTools but the build may fail.''))
                    (ret clt_sdk_path)
              else
                bind (check_output [''xcode-select'', ''-p''] (xcode_select w)) (\<lambda>b.
                bind (decoded w b) (\<lambda>d.
                ret (strip str_space d @ ''/Platforms/MacOSX.platform/Developer/SDKs/MacOSX.sdk''))))
          (\<lambda>sysroot. seq (out (''Sysroot is                   '' @ sysroot)) (ret (Some sysroot)))
      else ret None)"

subsection \<open>Lines 132 to 152: the plan, the patches and the first question\<close>

definition yes_no :: "bool \<Rightarrow> string" where
  "yes_no b = (if b then ''YES'' else ''NO'')"

definition print_plan :: "world \<Rightarrow> args \<Rightarrow> unit prog" where
  "print_plan w a = block
     [out (''Build path will be           '' @ path_str w build_path),
      out (''Build products path will be  '' @ path_str w install_path),
      out (''Clean build directory:       '' @ yes_no (clean a)),
      out (''Universal build:             '' @ yes_no (universal a)),
      out (''Install to home directory:   '' @ yes_no (install a)),
      out (''Codesigning:                 '' @ yes_no (sign a)),
      out []]"

text \<open>\<^verbatim>\<open>Path.iterdir\<close>: the names in a directory, an \<^verbatim>\<open>OSError\<close> when it is none.\<close>

definition iterdir :: "path \<Rightarrow> string list prog" where
  "iterdir p =
     bind get_fs (\<lambda>t. case lookup p t of Some (Dir es) \<Rightarrow> ret (map fst es) | _ \<Rightarrow> os_error)"

definition select_patches :: "world \<Rightarrow> string list \<Rightarrow> string list" where
  "select_patches w names =
     map (\<lambda>n. resolve w (path_str w (patches_path @ [n])))
       (filter (\<lambda>n. path_suffix n = ''.patch'') (sort_key (normcase w) names))"

definition find_patches :: "world \<Rightarrow> string list prog" where
  "find_patches w = bind (iterdir patches_path) (\<lambda>names. ret (select_patches w names))"

definition list_patches :: "string list \<Rightarrow> unit prog" where
  "list_patches patches = foreach patches (\<lambda>patch_file. out (''Apply patch: '' @ patch_file))"

definition abort :: "unit prog" where
  "abort = seq (out ''Aborted'') (halt (Exit 1))"

definition confirm_q :: string where
  "confirm_q = [newline] @ ''Is this correct (y/n)? ''"

definition confirm :: "args \<Rightarrow> unit prog" where
  "confirm a =
     (if prompt a then bind (input confirm_q) (\<lambda>l. whenever (l \<noteq> ''y'') abort) else ret ())"

subsection \<open>Lines 154 to 171: the artifact directory, cleaning, the second question\<close>

definition make_artifacts :: "unit prog" where
  "make_artifacts = bind (exists artifact_path) (\<lambda>e. whenever (\<not> e) (mkdir True artifact_path))"

text \<open>\<^verbatim>\<open>artifact_path.glob('*')\<close>: the entries of the directory, none when it is a file.\<close>

definition glob_star :: "path \<Rightarrow> path list prog" where
  "glob_star p =
     bind get_fs (\<lambda>t.
       ret (case lookup p t of Some (Dir es) \<Rightarrow> map (\<lambda>(n, c). p @ [n]) es | _ \<Rightarrow> []))"

definition cmake_cache :: path where
  "cmake_cache = [''CMakeCache.txt'']"

definition clean_stage :: "world \<Rightarrow> args \<Rightarrow> unit prog" where
  "clean_stage w a =
     whenever (clean a) (block
       [bind (glob_star artifact_path) (\<lambda>fs. foreach fs unlink),
        bind (exists build_path) (\<lambda>e. whenever e (remove_dir w build_path)),
        bind (exists cmake_cache) (\<lambda>e. whenever e (unlink cmake_cache))])"

definition overwrite_q :: string where
  "overwrite_q = [newline] @ ''An install already exists at the target location. Overwrite? ''"

definition confirm_overwrite :: "args \<Rightarrow> unit prog" where
  "confirm_overwrite a =
     bind (exists install_path) (\<lambda>e.
       whenever e
         (if prompt a then bind (input overwrite_q) (\<lambda>l. whenever (l \<noteq> ''y'') abort) else ret ()))"

subsection \<open>Lines 173 to 192: cloning and patching\<close>

definition fail_with :: "string \<Rightarrow> unit prog" where
  "fail_with msg = seq (out msg) (halt (Exit 1))"

definition clone_argv :: "world \<Rightarrow> string list" where
  "clone_argv w = [''git'', ''clone'', ''https://github.com/yasm/yasm'', ''--branch'',
     ''v'' @ yasm_version, ''--depth'', ''1'', path_str w source_path]"

definition apply_patch :: "world \<Rightarrow> string \<Rightarrow> unit prog" where
  "apply_patch w patch_file =
     seq (out (''Applying patch '' @ patch_file @ ''...''))
       (bind (call w [''git'', ''apply'', patch_file] (Some (path_str w source_path))) (\<lambda>rc.
          whenever (rc \<noteq> 0) (fail_with ''Failed to patch source'')))"

definition clone_stage :: "world \<Rightarrow> args \<Rightarrow> string list \<Rightarrow> unit prog" where
  "clone_stage w a patches =
     whenever (\<not> no_clone a) (block
       [out ([newline] @ ''Cloning yasm...''),
        bind (exists yasm_dir) (\<lambda>e. whenever (\<not> e) (mkdir False yasm_dir)),
        bind (exists source_path) (\<lambda>e. whenever e (remove_dir w source_path)),
        bind (call w (clone_argv w) None) (\<lambda>rc.
          whenever (rc \<noteq> 0) (fail_with ''Failed to clone yasm git repository'')),
        bind (call w [''git'', ''checkout'', ''v'' @ yasm_version] (Some (path_str w source_path))) (\<lambda>rc.
          whenever (rc \<noteq> 0)
            (fail_with (''Failed to check out tag '' @ [squote] @ ''v'' @ yasm_version @ [squote]))),
        foreach patches (apply_patch w)])"

subsection \<open>Lines 194 to 236: configuring, building, installing\<close>

definition cmake_params :: "world \<Rightarrow> args \<Rightarrow> string option \<Rightarrow> (string \<times> string) list" where
  "cmake_params w a sysroot =
     [(''CMAKE_BUILD_TYPE'', ''Release''),
      (''BUILD_SHARED_LIBS'', ''OFF''),
      (''CMAKE_INSTALL_PREFIX'', path_str w install_path)]
     @ (if platform w = ''darwin'' then
          (case sysroot of None \<Rightarrow> [] | Some r \<Rightarrow> [(''CMAKE_OSX_SYSROOT'', r)])
          @ [(''CMAKE_OSX_DEPLOYMENT_TARGET'', ''10.14'')]
          @ (if universal a then [(''CMAKE_OSX_ARCHITECTURES'', ''arm64;x86_64'')] else [])
        else [])"

definition cmake_params_array :: "world \<Rightarrow> args \<Rightarrow> string option \<Rightarrow> string list" where
  "cmake_params_array w a sysroot =
     map (\<lambda>(option, val). ''-D'' @ option @ ''='' @ val) (cmake_params w a sysroot)"

definition cmake_argv :: "world \<Rightarrow> args \<Rightarrow> string option \<Rightarrow> string list" where
  "cmake_argv w a sysroot =
     [''cmake'', path_str w source_path] @ cmake_params_array w a sysroot @ cmake_generator_array"

definition configure_stage :: "world \<Rightarrow> args \<Rightarrow> string option \<Rightarrow> unit prog" where
  "configure_stage w a sysroot = block
     [out ([newline] @ ''Configuring yasm...''),
      bind (exists build_path) (\<lambda>e. whenever (\<not> e) (mkdir False build_path)),
      out (join '' '' (map shlex_quote (cmake_argv w a sysroot))),
      bind (call w (cmake_argv w a sysroot) (Some (path_str w build_path))) (\<lambda>rc.
        whenever (rc \<noteq> 0) (fail_with ''Failed to configure yasm build''))]"

text \<open>Lines 224 to 226: the install path is removed when it exists, then made anew.\<close>

definition reset_install :: "world \<Rightarrow> unit prog" where
  "reset_install w = block
     [bind (exists install_path) (\<lambda>e. whenever e (remove_dir w install_path)),
      mkdir True install_path]"

definition build_argv :: "world \<Rightarrow> args \<Rightarrow> string list" where
  "build_argv w a = [make_cmd] @ parallel w a"

definition run_build :: "world \<Rightarrow> args \<Rightarrow> unit prog" where
  "run_build w a =
     bind (call w (build_argv w a) (Some (path_str w build_path))) (\<lambda>rc.
       whenever (rc \<noteq> 0) (fail_with ''yasm failed to build''))"

definition build_stage :: "world \<Rightarrow> args \<Rightarrow> unit prog" where
  "build_stage w a = block
     [out ([newline] @ ''Building yasm...''),
      reset_install w,
      run_build w a]"

definition install_stage :: "world \<Rightarrow> unit prog" where
  "install_stage w = block
     [out ([newline] @ ''Installing yasm...''),
      bind (call w [make_cmd, ''install''] (Some (path_str w build_path))) (\<lambda>rc.
        whenever (rc \<noteq> 0) (fail_with ''yasm failed to install''))]"

subsection \<open>Lines 239 to 263: signing\<close>

definition walk_install :: "world \<Rightarrow> node \<Rightarrow> (string \<times> path \<times> string list) list" where
  "walk_install w t =
     (case lookup install_path t of
        None \<Rightarrow> []
      | Some n \<Rightarrow> walk w (path_str w install_path) install_path n)"

definition fat_magic :: bytes where
  "fat_magic = [0xCA, 0xFE, 0xBA, 0xBE]"

definition mac_sign_file :: "world \<Rightarrow> string \<Rightarrow> path \<Rightarrow> string \<Rightarrow> unit prog" where
  "mac_sign_file w root rp file =
     (let file_path = os_path_join w root file in
      bind (access_x (rp @ [file])) (\<lambda>x.
        if \<not> x then ret ()
        else
          bind (read_file (rp @ [file])) (\<lambda>b.
            if \<not> take 4 b = fat_magic then ret ()
            else
              bind (mac_sign w file_path (rp @ [file]) False True) (\<lambda>ok.
                whenever (\<not> ok) (fail_with (''Failed to sign '' @ file_path))))))"

definition win_sign_file :: "world \<Rightarrow> string \<Rightarrow> string \<Rightarrow> unit prog" where
  "win_sign_file w root file =
     whenever (suffix ''.exe'' file \<or> suffix ''.dll'' file)
       (let file_path = os_path_join w root file in
        bind (signWindowsFiles w file_path) (\<lambda>ok.
          whenever (\<not> ok) (fail_with (''Failed to sign '' @ file_path))))"

definition sign_darwin :: "world \<Rightarrow> unit prog" where
  "sign_darwin w =
     bind get_fs (\<lambda>t.
       foreach (walk_install w t) (\<lambda>(root, rp, files). foreach files (mac_sign_file w root rp)))"

definition sign_windows :: "world \<Rightarrow> unit prog" where
  "sign_windows w =
     bind get_fs (\<lambda>t.
       foreach (walk_install w t) (\<lambda>(root, rp, files). foreach files (win_sign_file w root)))"

definition sign_stage :: "world \<Rightarrow> args \<Rightarrow> unit prog" where
  "sign_stage w a =
     whenever (sign a)
       (if platform w = ''darwin'' then sign_darwin w
        else if is_win w then sign_windows w
        else ret ())"

subsection \<open>Lines 265 to 283: the archive\<close>

definition zip_path :: path where
  "zip_path = artifact_path @ [''yasm-'' @ yasm_version @ ''.zip'']"

text \<open>
  \<^verbatim>\<open>zipfile.ZipFile(path, 'w', ZIP_DEFLATED)\<close> creates the file, \<^verbatim>\<open>writestr\<close> adds an entry,
  and leaving the \<^verbatim>\<open>with\<close> block writes the archive out.
\<close>

definition zip_open :: "world \<Rightarrow> unit prog" where
  "zip_open w =
     bind get_fs (\<lambda>t.
       case lookup artifact_path t of
         Some (Dir _) \<Rightarrow>
           (case lookup zip_path t of
              Some (Dir _) \<Rightarrow> os_error
            | _ \<Rightarrow> (\<lambda>s. (Done (),
                       s\<lparr>fs := put zip_path (File [] False) t, archive := [],
                         trace := trace s @ [ZipOpen (path_str w zip_path) ZIP_DEFLATED]\<rparr>)))
       | _ \<Rightarrow> os_error)"

definition writestr :: "zipinfo \<Rightarrow> bytes \<Rightarrow> unit prog" where
  "writestr info data s =
     (Done (), s\<lparr>archive := archive s @ [(info, data)], trace := trace s @ [ZipWrite info data]\<rparr>)"

definition zip_close :: "world \<Rightarrow> unit prog" where
  "zip_close w s =
     (Done (), s\<lparr>fs := put zip_path (File (zip_bytes w (archive s)) False) (fs s),
                 trace := trace s @ [ZipClose]\<rparr>)"

definition relpath_of :: "world \<Rightarrow> string \<Rightarrow> string" where
  "relpath_of w root = strip {bslash, CHR ''/''} (remove_all (path_str w install_path) root)"

definition arc_name :: "world \<Rightarrow> string \<Rightarrow> string \<Rightarrow> string" where
  "arc_name w relpath file =
     os_path_join w (os_path_join w (os_path_join w ''yasm'' yasm_version) relpath) file"

definition mode_x :: int where "mode_x = 7 * 64 + 5 * 8 + 5"
definition mode_r :: int where "mode_r = 6 * 64 + 4 * 8 + 4"

definition archive_file :: "world \<Rightarrow> string \<Rightarrow> path \<Rightarrow> string \<Rightarrow> unit prog" where
  "archive_file w root rp file =
     (let relpath = relpath_of w root in
      seq (out (''Adding '' @ relpath @ ''/'' @ file @ ''...''))
        (let info = (ZipInfo w (arc_name w relpath file))\<lparr>compress_type := ZIP_DEFLATED\<rparr> in
         bind (access_x (rp @ [file])) (\<lambda>x.
         bind (read_file (rp @ [file])) (\<lambda>data.
           writestr (info\<lparr>external_attr := push_bit 16 (if x then mode_x else mode_r)\<rparr>) data))))"

definition archive_stage :: "world \<Rightarrow> unit prog" where
  "archive_stage w = block
     [out ([newline] @ ''Creating archive...''),
      zip_open w,
      ensuring
        (bind get_fs (\<lambda>t.
           foreach (walk_install w t) (\<lambda>(root, rp, files). foreach files (archive_file w root rp))))
        (zip_close w)]"

subsection \<open>Lines 285 to 287, and the whole run\<close>

definition cleanup_stage :: "world \<Rightarrow> args \<Rightarrow> unit prog" where
  "cleanup_stage w a =
     whenever (clean a) (seq (out ''Cleaning up...'') (remove_dir w source_path))"

definition main :: "world \<Rightarrow> args \<Rightarrow> unit prog" where
  "main w a =
     seq (import_vcvars w)
    (bind (find_sysroot w) (\<lambda>sysroot.
     seq (print_plan w a)
    (bind (find_patches w) (\<lambda>patches. block
       [list_patches patches,
        confirm a,
        make_artifacts,
        clean_stage w a,
        confirm_overwrite a,
        clone_stage w a patches,
        configure_stage w a sysroot,
        build_stage w a,
        install_stage w,
        sign_stage w a,
        archive_stage w,
        cleanup_stage w a]))))"

text \<open>The status the process ends with, and the state it leaves.\<close>

definition run :: "world \<Rightarrow> args \<Rightarrow> state \<Rightarrow> status \<times> state" where
  "run w a s = (case main w a s of (Done _, s') \<Rightarrow> (Exit 0, s') | (Halt e, s') \<Rightarrow> (e, s'))"

section \<open>Notions used to state the properties\<close>

subsection \<open>Relations between the state before and after a step\<close>

definition steps :: "(state \<Rightarrow> state \<Rightarrow> bool) \<Rightarrow> 'a prog \<Rightarrow> bool" where
  "steps T m = (\<forall>s. T s (snd (m s)))"

definition pre :: "(state \<Rightarrow> state \<Rightarrow> bool) \<Rightarrow> bool" where
  "pre T = ((\<forall>s. T s s) \<and> (\<forall>a b c. T a b \<longrightarrow> T b c \<longrightarrow> T a c))"

definition pure :: "'a prog \<Rightarrow> bool" where
  "pure m = (\<forall>s. snd (m s) = s)"

definition silent :: "'a prog \<Rightarrow> bool" where
  "silent m = (\<forall>s. trace (snd (m s)) = trace s)"

text \<open>The trace grows, and every new event satisfies \<open>\<phi>\<close>.\<close>

definition ext :: "(event \<Rightarrow> bool) \<Rightarrow> state \<Rightarrow> state \<Rightarrow> bool" where
  "ext \<phi> s s' = (\<exists>es. trace s' = trace s @ es \<and> list_all \<phi> es)"

text \<open>The events a step added to the trace.\<close>

definition added :: "state \<Rightarrow> state \<Rightarrow> event list" where
  "added s s' = drop (length (trace s)) (trace s')"

subsection \<open>Kinds of events\<close>

primrec is_ask :: "event \<Rightarrow> bool" where
  "is_ask (Out l) = False"
| "is_ask (Ask q ans) = True"
| "is_ask (Call argv cwd rc) = False"
| "is_ask (ZipOpen p c) = False"
| "is_ask (ZipWrite i b) = False"
| "is_ask ZipClose = False"

subsection \<open>Sample inputs\<close>


text \<open>A Linux host on which every tool succeeds and leaves the tree as it is.\<close>

definition linux_world :: world where
  "linux_world =
     \<lparr>platform = ''linux'', base = ''/w'',
      tool = (\<lambda>n argv cwd t. (0, [], t)), rmdir_ok = (\<lambda>n. True),
      vcvars = (0, []), xcode_select = (0, []), decode = (\<lambda>b. Some (charmap b)),
      clt_sdk = False, xcode_app = False, helper_exists = (\<lambda>n. False),
      resolve = (\<lambda>p. p), glob_magic = (\<lambda>n p. []), zip_bytes = (\<lambda>es. [])\<rparr>"

definition plain_args :: args where
  "plain_args =
     \<lparr>no_clone = True, clean = False, prompt = False, install = True, patch = None,
      universal = False, sign = False, jobs = ''4''\<rparr>"

text \<open>A checkout with two patches, a note, and a source tree already in place.\<close>

definition checkout :: node where
  "checkout = Dir
     [(''patches'', Dir [(''b.patch'', File [] False), (''a.patch'', File [] False),
                        (''notes.txt'', File [] False)]),
      (''build'', Dir [(''src'', Dir [])])]"

definition start :: "node \<Rightarrow> string list \<Rightarrow> state" where
  "start t lines =
     \<lparr>fs = t, stdin = lines, trace = [], tick = 0,
      environ = [''HOME'' \<mapsto> ''/home/op'', ''USERPROFILE'' \<mapsto> ''C:/Users/op''], archive = []\<rparr>"

subsection \<open>Paths that part ways\<close>

text \<open>Two paths diverge when they differ at a component that both have.\<close>

fun diverge :: "path \<Rightarrow> path \<Rightarrow> bool" where
  "diverge (a # p) (b # q) = (a \<noteq> b \<or> diverge p q)"
| "diverge p q = False"

subsection \<open>The build tool\<close>


text \<open>A checkout that was built before: the install path holds a file of the last run.\<close>

definition stale_install :: node where
  "stale_install = Dir
     [(''patches'', Dir []),
      (''build'',
       Dir [(''src'', Dir [(''build'', Dir [])]),
            (''install'', Dir [(''yasm'', Dir [(''1.3.0'', Dir [(''old.txt'', File [1] False)])])])])]"

subsection \<open>The question about an existing install\<close>

definition keeps :: "path \<Rightarrow> state \<Rightarrow> state \<Rightarrow> bool" where
  "keeps q s s' = (lookup q (fs s') = lookup q (fs s))"

definition fs_same :: "'a prog \<Rightarrow> bool" where
  "fs_same m = (\<forall>s. fs (snd (m s)) = fs s)"

text \<open>An answer other than \<open>y\<close> to the question about an existing install.\<close>

definition declined :: "event \<Rightarrow> bool" where
  "declined e = (case e of Ask q (Some l) \<Rightarrow> q = overwrite_q \<and> l \<noteq> ''y'' | _ \<Rightarrow> False)"

text \<open>The module up to line 166, and from line 173 on.\<close>

definition before_overwrite :: "world \<Rightarrow> args \<Rightarrow> (string option \<times> string list) prog" where
  "before_overwrite w a =
     seq (import_vcvars w)
    (bind (find_sysroot w) (\<lambda>sysroot.
     seq (print_plan w a)
    (bind (find_patches w) (\<lambda>patches.
     seq (block [list_patches patches, confirm a, make_artifacts, clean_stage w a])
       (ret (sysroot, patches))))))"

definition after_overwrite :: "world \<Rightarrow> args \<Rightarrow> string option \<Rightarrow> string list \<Rightarrow> unit prog" where
  "after_overwrite w a sysroot patches = block
     [clone_stage w a patches,
      configure_stage w a sysroot,
      build_stage w a,
      install_stage w,
      sign_stage w a,
      archive_stage w,
      cleanup_stage w a]"

subsection \<open>Signing on Windows\<close>

text \<open>The time server and the exit status of an invocation of the signing tool.\<close>

definition attempt :: "event \<Rightarrow> (string \<times> int) option" where
  "attempt e =
     (case e of
        Call argv cwd rc \<Rightarrow>
          if length argv = 11 \<and> hd argv = signTool then Some (argv ! 7, rc) else None
      | _ \<Rightarrow> None)"

definition attempts :: "event list \<Rightarrow> (string \<times> int) list" where
  "attempts es = List.map_filter attempt es"

definition failed :: "string \<times> int \<Rightarrow> bool" where
  "failed x = (snd x \<noteq> 0)"


subsection \<open>Signing on macOS\<close>

definition is_codesign :: "event \<Rightarrow> bool" where
  "is_codesign e = (case e of Call argv cwd rc \<Rightarrow> argv \<noteq> [] \<and> hd argv = ''codesign'' | _ \<Rightarrow> False)"





text \<open>
  A macOS host with the unlock helper in place: the tools end with the given statuses, and
  the install step leaves the given tree at the install path.
\<close>

definition mac_world :: "node \<Rightarrow> (nat \<Rightarrow> int) \<Rightarrow> world" where
  "mac_world installed rcs = linux_world
     \<lparr>platform := ''darwin'', clt_sdk := True, helper_exists := (\<lambda>n. True),
      tool := (\<lambda>n argv cwd t.
        (rcs n, [], if argv = [''ninja'', ''install''] then put install_path installed t else t))\<rparr>"


definition thin_binary :: node where
  "thin_binary = Dir [(''bin'', Dir [(''yasm'', File [0xCF, 0xFA, 0xED, 0xFE, 7] True)])]"


subsection \<open>The output of the environment script\<close>





subsection \<open>The patches\<close>











text \<open>The statuses a step can end the process with.\<close>

definition halts :: "(status \<Rightarrow> bool) \<Rightarrow> 'a prog \<Rightarrow> bool" where
  "halts P m = (\<forall>s e. fst (m s) = Halt e \<longrightarrow> P e)"


subsection \<open>The archive\<close>

text \<open>The name, the compression, the attributes and the bytes of an entry written to the archive.\<close>

definition zip_entry :: "event \<Rightarrow> (string \<times> nat \<times> int \<times> bytes) option" where
  "zip_entry e =
     (case e of
        ZipWrite i d \<Rightarrow> Some (filename i, compress_type i, external_attr i, d)
      | _ \<Rightarrow> None)"

definition zip_entries :: "event list \<Rightarrow> (string \<times> nat \<times> int \<times> bytes) list" where
  "zip_entries es = List.map_filter zip_entry es"

text \<open>A Linux host on which the install step leaves the given tree at the install path.\<close>

definition installing_world :: "node \<Rightarrow> world" where
  "installing_world installed = linux_world
     \<lparr>tool := (\<lambda>n argv cwd t.
        (0, [], if argv = [''ninja'', ''install''] then put install_path installed t else t))\<rparr>"

text \<open>
  An install tree with a directory whose name ends in a backslash, which is an ordinary
  character of a file name on Linux and macOS.
\<close>

definition odd_names :: node where
  "odd_names = Dir
     [(''doc'' @ [bslash], Dir [(''README'', File [1] False)]),
      (''doc'', Dir [(''README'', File [2] False)]),
      (''bin'', Dir [(''yasm'', File [3] True)])]"

section \<open>Reasoning about steps\<close>

lemma bind_ret [simp]: "bind (ret a) f = f a"
  by (rule ext) (simp add: bind_def ret_def)

lemma bind_halt [simp]: "bind (halt e) f = halt e"
  by (rule ext) (simp add: bind_def halt_def)

lemma bind_assoc: "bind (bind m f) g = bind m (\<lambda>a. bind (f a) g)"
  by (rule ext) (simp add: bind_def split: prod.split result.split)







lemma snd_run: "snd (run w a s) = snd (main w a s)"
  by (simp add: run_def split: prod.split result.split)

lemma steps_ret: "pre T \<Longrightarrow> steps T (ret a)"
  by (simp add: steps_def pre_def ret_def)

lemma steps_halt: "pre T \<Longrightarrow> steps T (halt e)"
  by (simp add: steps_def pre_def halt_def)

lemma steps_bind:
  assumes "pre T" "steps T m" "\<And>a. steps T (f a)"
  shows "steps T (bind m f)"
proof -
  have "T s (snd (bind m f s))" for s
  proof (cases "m s")
    case (Pair r s')
    have 1: "T s s'"
      using assms(2) Pair by (auto simp: steps_def dest: spec[of _ s])
    show ?thesis
    proof (cases r)
      case (Done a)
      have "T s' (snd (f a s'))"
        using assms(3)[of a] by (simp add: steps_def)
      with 1 assms(1) have "T s (snd (f a s'))"
        unfolding pre_def by blast
      then show ?thesis
        using Pair Done by (simp add: bind_def)
    next
      case (Halt e)
      then show ?thesis
        using Pair 1 by (simp add: bind_def)
    qed
  qed
  then show ?thesis
    by (simp add: steps_def)
qed

lemma steps_seq: "pre T \<Longrightarrow> steps T m \<Longrightarrow> steps T n \<Longrightarrow> steps T (seq m n)"
  by (simp add: seq_def steps_bind)

lemma steps_whenever: "pre T \<Longrightarrow> (c \<Longrightarrow> steps T m) \<Longrightarrow> steps T (whenever c m)"
  by (simp add: whenever_def steps_ret)

lemma steps_if: "(c \<Longrightarrow> steps T m) \<Longrightarrow> (\<not> c \<Longrightarrow> steps T n) \<Longrightarrow> steps T (if c then m else n)"
  by simp

lemma steps_block_Nil: "pre T \<Longrightarrow> steps T (block [])"
  by (simp add: steps_ret)

lemma steps_block_Cons:
  "pre T \<Longrightarrow> steps T m \<Longrightarrow> steps T (block ms) \<Longrightarrow> steps T (block (m # ms))"
  by (simp add: steps_seq)

lemma steps_foreach:
  "pre T \<Longrightarrow> (\<And>x. x \<in> set xs \<Longrightarrow> steps T (f x)) \<Longrightarrow> steps T (foreach xs f)"
  by (induction xs) (simp_all add: steps_ret steps_seq)

lemma steps_ensuring:
  assumes "pre T" "steps T m" "steps T fin"
  shows "steps T (ensuring m fin)"
proof -
  have "T s (snd (ensuring m fin s))" for s
  proof -
    obtain r s' where m: "m s = (r, s')"
      by (cases "m s")
    obtain r' s'' where f: "fin s' = (r', s'')"
      by (cases "fin s'")
    have "T s s'"
      using assms(2) m by (auto simp: steps_def dest: spec[of _ s])
    moreover have "T s' s''"
      using assms(3) f by (auto simp: steps_def dest: spec[of _ s'])
    ultimately have "T s s''"
      using assms(1) unfolding pre_def by blast
    then show ?thesis
      using m f by (cases r') (simp_all add: ensuring_def)
  qed
  then show ?thesis
    by (simp add: steps_def)
qed

lemma steps_case_option:
  "steps T n \<Longrightarrow> (\<And>x. steps T (f x)) \<Longrightarrow> steps T (case v of None \<Rightarrow> n | Some x \<Rightarrow> f x)"
  by (cases v) simp_all

lemma steps_case_prod: "(\<And>x y. steps T (f x y)) \<Longrightarrow> steps T (case v of (x, y) \<Rightarrow> f x y)"
  by (cases v) simp

lemma steps_case_list:
  "steps T n \<Longrightarrow> (\<And>x xs. steps T (f x xs)) \<Longrightarrow> steps T (case v of [] \<Rightarrow> n | x # xs \<Rightarrow> f x xs)"
  by (cases v) simp_all

lemma steps_Let: "steps T (f v) \<Longrightarrow> steps T (Let v f)"
  by simp


lemma steps_mono: "(\<And>s s'. T s s' \<Longrightarrow> U s s') \<Longrightarrow> steps T m \<Longrightarrow> steps U m"
  by (simp add: steps_def)

lemma stepsD: "steps T m \<Longrightarrow> m s = (r, s') \<Longrightarrow> T s s'"
  by (auto simp: steps_def dest: spec[of _ s])

lemmas struct = steps_bind steps_seq steps_whenever steps_block_Nil steps_block_Cons steps_foreach
  steps_ensuring steps_ret steps_halt steps_if steps_case_option steps_case_prod steps_case_list
  steps_Let

subsection \<open>Steps that change nothing, steps that print nothing\<close>

lemma pure_ret: "pure (ret a)"
  by (simp add: pure_def ret_def)

lemma pure_halt: "pure (halt e)"
  by (simp add: pure_def halt_def)

lemma pure_get_fs: "pure get_fs"
  by (simp add: pure_def get_fs_def)

lemma pure_get_tick: "pure get_tick"
  by (simp add: pure_def get_tick_def)

lemma pure_getenv: "pure (getenv k)"
  by (simp add: pure_def getenv_def split: option.split)

lemma pure_os_error: "pure os_error"
  by (simp add: os_error_def pure_halt)

lemma pure_decoded: "pure (decoded w b)"
  by (simp add: decoded_def pure_halt pure_ret split: option.split)

lemma pure_bind: "pure m \<Longrightarrow> (\<And>a. pure (f a)) \<Longrightarrow> pure (bind m f)"
  unfolding pure_def bind_def
  by (auto split: prod.split result.split) (metis snd_conv)+

lemma pure_exists: "pure (exists p)"
  by (simp add: exists_def pure_bind pure_get_fs pure_ret)

lemma pure_read_file: "pure (read_file p)"
  unfolding read_file_def
  by (intro pure_bind pure_get_fs) (simp add: pure_ret pure_os_error split: option.split node.split)

lemma pure_access_x: "pure (access_x p)"
  by (simp add: access_x_def pure_bind pure_get_fs pure_ret)

lemma pure_glob_star: "pure (glob_star p)"
  by (simp add: glob_star_def pure_bind pure_get_fs pure_ret)

lemma pure_iterdir: "pure (iterdir p)"
  unfolding iterdir_def
  by (intro pure_bind pure_get_fs) (simp add: pure_ret pure_os_error split: option.split node.split)

lemma pure_glob_glob: "pure (glob_glob w pstr p)"
  unfolding glob_glob_def
  by (intro pure_bind pure_get_fs pure_get_tick) (simp add: pure_ret)

lemmas pures = pure_ret pure_halt pure_get_fs pure_get_tick pure_getenv pure_os_error pure_decoded
  pure_exists pure_read_file pure_access_x pure_glob_star pure_iterdir pure_glob_glob

lemma silent_pure: "pure m \<Longrightarrow> silent m"
  by (simp add: silent_def pure_def)

lemma silent_set_fs: "silent (set_fs t)"
  by (simp add: silent_def set_fs_def)

lemma silent_setenv: "silent (setenv k v)"
  by (simp add: silent_def setenv_def)

lemma silent_mkdir: "silent (mkdir b p)"
  by (simp add: silent_def mkdir_def bind_def get_fs_def set_fs_def os_error_def halt_def
      split: option.split node.split)

lemma silent_unlink: "silent (unlink p)"
  by (simp add: silent_def unlink_def bind_def get_fs_def set_fs_def os_error_def halt_def
      split: option.split node.split)

lemma silent_rmtree: "silent (rmtree p)"
  by (simp add: silent_def rmtree_def bind_def get_fs_def set_fs_def os_error_def halt_def
      split: option.split node.split)

lemmas silents = silent_set_fs silent_setenv silent_mkdir silent_unlink silent_rmtree
  pures [THEN silent_pure]

subsection \<open>What each primitive adds to the trace\<close>

lemma pre_ext: "pre (ext \<phi>)"
  unfolding pre_def ext_def
  by (auto intro: exI[of _ "[]"])

lemma steps_silent: "silent m \<Longrightarrow> steps (ext \<phi>) m"
  by (simp add: steps_def silent_def ext_def)

lemma ext_emit: "\<phi> e \<Longrightarrow> steps (ext \<phi>) (emit e)"
  by (simp add: steps_def ext_def emit_def)

lemma ext_out: "\<phi> (Out l) \<Longrightarrow> steps (ext \<phi>) (out l)"
  by (simp add: out_def ext_emit)

lemma ext_input: "(\<And>ans. \<phi> (Ask q ans)) \<Longrightarrow> steps (ext \<phi>) (input q)"
  by (simp add: steps_def ext_def input_def split: list.split)

lemma ext_run_tool: "(\<And>rc. \<phi> (Call argv cwd rc)) \<Longrightarrow> steps (ext \<phi>) (run_tool w argv cwd)"
  by (simp add: steps_def ext_def run_tool_def split: prod.split)

lemma ext_call: "(\<And>rc. \<phi> (Call argv cwd rc)) \<Longrightarrow> steps (ext \<phi>) (call w argv cwd)"
  unfolding call_def
  by (intro steps_bind pre_ext ext_run_tool steps_case_prod steps_ret)

lemma ext_check_output:
  "(\<And>rc. \<phi> (Call argv None rc)) \<Longrightarrow> steps (ext \<phi>) (check_output argv ans)"
  unfolding check_output_def
  by (intro steps_seq pre_ext ext_emit steps_if steps_ret steps_halt)

lemma ext_win_rmdir:
  "(\<And>rc. \<phi> (Call [''rmdir /S /Q '' @ [dquote] @ path_str w p @ [dquote]] None rc))
   \<Longrightarrow> steps (ext \<phi>) (win_rmdir w p)"
  by (simp add: steps_def ext_def win_rmdir_def Let_def)

lemma ext_remove_dir:
  "(\<And>rc. \<phi> (Call [''rmdir /S /Q '' @ [dquote] @ path_str w p @ [dquote]] None rc))
   \<Longrightarrow> steps (ext \<phi>) (remove_dir w p)"
  by (simp add: remove_dir_def ext_win_rmdir steps_silent silent_rmtree)

lemma ext_zip_open:
  "\<phi> (ZipOpen (path_str w zip_path) ZIP_DEFLATED) \<Longrightarrow> steps (ext \<phi>) (zip_open w)"
  by (simp add: steps_def ext_def zip_open_def bind_def get_fs_def os_error_def halt_def
      split: option.split node.split)

lemma ext_writestr: "\<phi> (ZipWrite i d) \<Longrightarrow> steps (ext \<phi>) (writestr i d)"
  by (simp add: steps_def ext_def writestr_def)

lemma ext_zip_close: "\<phi> ZipClose \<Longrightarrow> steps (ext \<phi>) (zip_close w)"
  by (simp add: steps_def ext_def zip_close_def)

lemma ext_try_servers:
  "(\<And>sv rc. \<phi> (Call (signtool_argv cert sv pstr) None rc))
   \<Longrightarrow> \<phi> (Out (''Failed to sign file '' @ pstr)) \<Longrightarrow> \<phi> (Out (''Signed '' @ pstr))
   \<Longrightarrow> (\<And>sv l. \<phi> (Out (''Signing '' @ pstr @ '' with timeserver: '' @ sv
                     @ '' failed. Trying next server. '' @ l)))
   \<Longrightarrow> steps (ext \<phi>) (try_servers w cert pstr svs)"
  by (induction svs)
     (auto intro!: steps_bind steps_seq steps_ret pre_ext ext_out ext_run_tool steps_case_prod)

lemma ext_signWindowsFiles:
  "(\<And>cert sv rc. \<phi> (Call (signtool_argv cert sv pstr) None rc))
   \<Longrightarrow> \<phi> (Out (''Failed to sign file '' @ pstr)) \<Longrightarrow> \<phi> (Out (''Signed '' @ pstr))
   \<Longrightarrow> (\<And>sv l. \<phi> (Out (''Signing '' @ pstr @ '' with timeserver: '' @ sv
                     @ '' failed. Trying next server. '' @ l)))
   \<Longrightarrow> steps (ext \<phi>) (signWindowsFiles w pstr)"
  using ext_try_servers [of \<phi> _ pstr w timeServers]
  by (simp add: steps_def signWindowsFiles_def)

lemmas ext_leaf = pre_ext ext_out ext_input ext_call ext_run_tool ext_check_output ext_remove_dir
  ext_zip_open ext_writestr ext_zip_close ext_signWindowsFiles silents [THEN steps_silent]

lemmas stage_defs = import_vcvars_def import_line_def find_sysroot_def print_plan_def
  find_patches_def list_patches_def confirm_def abort_def make_artifacts_def clean_stage_def
  confirm_overwrite_def fail_with_def apply_patch_def clone_stage_def configure_stage_def
  reset_install_def run_build_def build_stage_def install_stage_def mac_sign_file_def
  win_sign_file_def sign_darwin_def sign_windows_def sign_stage_def archive_file_def
  archive_stage_def cleanup_stage_def keychain_unlocker_def mac_sign_def

subsection \<open>Steps that leave the tree alone\<close>

lemma fs_same_pure: "pure m \<Longrightarrow> fs_same m"
  by (simp add: fs_same_def pure_def)

lemma fs_same_emit: "fs_same (emit e)"
  by (simp add: fs_same_def emit_def)

lemma fs_same_out: "fs_same (out l)"
  by (simp add: out_def fs_same_emit)

lemma fs_same_input: "fs_same (input q)"
  by (simp add: fs_same_def input_def split: list.split)

lemma fs_same_setenv: "fs_same (setenv k v)"
  by (simp add: fs_same_def setenv_def)

lemma fs_same_check_output: "fs_same (check_output argv ans)"
  by (simp add: fs_same_def check_output_def seq_def bind_def emit_def ret_def halt_def)

lemmas fs_sames = fs_same_out fs_same_input fs_same_setenv fs_same_check_output
  pures [THEN fs_same_pure]

section \<open>Reading from standard input\<close>

text \<open>No stage but the two questions reads a line, and both questions ask only when prompting is on.\<close>

lemma noask_import_vcvars: "steps (ext (\<lambda>e. \<not> is_ask e)) (import_vcvars w)"
  unfolding stage_defs
  by (intro struct ext_leaf; simp)

lemma noask_find_sysroot: "steps (ext (\<lambda>e. \<not> is_ask e)) (find_sysroot w)"
  unfolding stage_defs
  by (intro struct ext_leaf; simp)

lemma noask_print_plan: "steps (ext (\<lambda>e. \<not> is_ask e)) (print_plan w a)"
  unfolding stage_defs
  by (intro struct ext_leaf; simp)

lemma noask_find_patches: "steps (ext (\<lambda>e. \<not> is_ask e)) (find_patches w)"
  unfolding stage_defs
  by (intro struct ext_leaf; simp)

lemma noask_list_patches: "steps (ext (\<lambda>e. \<not> is_ask e)) (list_patches ps)"
  unfolding stage_defs
  by (intro struct ext_leaf; simp)

lemma noask_confirm: "\<not> prompt a \<Longrightarrow> steps (ext (\<lambda>e. \<not> is_ask e)) (confirm a)"
  unfolding stage_defs
  by (intro struct ext_leaf; simp)

lemma noask_make_artifacts: "steps (ext (\<lambda>e. \<not> is_ask e)) (make_artifacts)"
  unfolding stage_defs
  by (intro struct ext_leaf; simp)

lemma noask_clean_stage: "steps (ext (\<lambda>e. \<not> is_ask e)) (clean_stage w a)"
  unfolding stage_defs
  by (intro struct ext_leaf; simp)

lemma noask_confirm_overwrite: "\<not> prompt a \<Longrightarrow> steps (ext (\<lambda>e. \<not> is_ask e)) (confirm_overwrite a)"
  unfolding stage_defs
  by (intro struct ext_leaf; simp)

lemma noask_clone_stage: "steps (ext (\<lambda>e. \<not> is_ask e)) (clone_stage w a ps)"
  unfolding stage_defs
  by (intro struct ext_leaf; simp)

lemma noask_configure_stage: "steps (ext (\<lambda>e. \<not> is_ask e)) (configure_stage w a sr)"
  unfolding stage_defs
  by (intro struct ext_leaf; simp)

lemma noask_build_stage: "steps (ext (\<lambda>e. \<not> is_ask e)) (build_stage w a)"
  unfolding stage_defs
  by (intro struct ext_leaf; simp)

lemma noask_install_stage: "steps (ext (\<lambda>e. \<not> is_ask e)) (install_stage w)"
  unfolding stage_defs
  by (intro struct ext_leaf; simp)

lemma noask_sign_stage: "steps (ext (\<lambda>e. \<not> is_ask e)) (sign_stage w a)"
  unfolding stage_defs
  by (intro struct ext_leaf; simp)

lemma noask_archive_stage: "steps (ext (\<lambda>e. \<not> is_ask e)) (archive_stage w)"
  unfolding stage_defs
  by (intro struct ext_leaf; simp)

lemma noask_cleanup_stage: "steps (ext (\<lambda>e. \<not> is_ask e)) (cleanup_stage w a)"
  unfolding stage_defs
  by (intro struct ext_leaf; simp)

lemma noask_main: "\<not> prompt a \<Longrightarrow> steps (ext (\<lambda>e. \<not> is_ask e)) (main w a)"
  unfolding main_def
  by (intro struct pre_ext noask_import_vcvars noask_find_sysroot noask_print_plan noask_find_patches noask_list_patches noask_confirm noask_make_artifacts noask_clean_stage noask_confirm_overwrite noask_clone_stage noask_configure_stage noask_build_stage noask_install_stage noask_sign_stage noask_archive_stage noask_cleanup_stage; assumption?)

lemma added_ext: "ext \<phi> s s' \<Longrightarrow> trace s' = trace s @ added s s' \<and> list_all \<phi> (added s s')"
  by (auto simp: ext_def added_def)

text \<open>
  C5. With \<^verbatim>\<open>--no-prompt\<close> a run reads nothing from standard input: whatever the platform,
  the tools and the tree do, the events the run adds to the trace contain no input read,
  neither for the first question nor for the question about an existing install.
\<close>

theorem no_prompt_never_reads_stdin:
  assumes "\<not> prompt a"
  shows "trace (snd (run w a s)) = trace s @ added s (snd (run w a s))
    \<and> list_all (\<lambda>e. \<not> is_ask e) (added s (snd (run w a s)))"
proof -
  have "ext (\<lambda>e. \<not> is_ask e) s (snd (main w a s))"
    using noask_main [OF assms, of w] by (simp add: steps_def)
  then show ?thesis
    by (simp add: snd_run added_ext)
qed

theorem no_prompt_never_reads_stdin_witness:
  "\<not> prompt plain_args
   \<and> list_all (\<lambda>e. \<not> is_ask e)
       (added (start checkout []) (snd (run linux_world plain_args (start checkout []))))"
  using no_prompt_never_reads_stdin [of plain_args linux_world "start checkout []"]
  by (simp add: plain_args_def)

section \<open>The \<^verbatim>\<open>--patch\<close> flag\<close>

lemma main_patch: "main w (a\<lparr>patch := p\<rparr>) = main w a"
  by (simp add: main_def print_plan_def confirm_def clean_stage_def confirm_overwrite_def
      clone_stage_def configure_stage_def cmake_argv_def cmake_params_array_def cmake_params_def
      build_stage_def run_build_def build_argv_def parallel_def sign_stage_def cleanup_stage_def)

text \<open>
  C10. Two runs that differ only in the values given to \<^verbatim>\<open>--patch\<close> end with the same
  status and the same state, trace included: the patches listed and the patches applied
  are the same, because nothing reads the parsed flag.
\<close>

theorem patch_flag_is_never_read:
  "run w (a\<lparr>patch := p\<rparr>) s = run w (a\<lparr>patch := q\<rparr>) s"
  by (simp add: run_def main_patch)

theorem patch_flag_is_never_read_witness:
  "run linux_world (plain_args\<lparr>patch := Some [''fix.patch'']\<rparr>) (start checkout [])
   = run linux_world (plain_args\<lparr>patch := None\<rparr>) (start checkout [])"
  by (rule patch_flag_is_never_read)

section \<open>The tree\<close>



lemma lookup_remove_diverge: "diverge p q \<Longrightarrow> lookup q (remove p t) = lookup q t"
proof (induction p q arbitrary: t rule: diverge.induct)
  case (1 a p b q)
  show ?case
  proof (cases t)
    case (File x y)
    then show ?thesis by simp
  next
    case (Dir es)
    show ?thesis
    proof (cases "a = b")
      case True
      with 1 have d: "diverge p q" by simp
      then have "p \<noteq> []" by (cases p) auto
      with 1 d True Dir show ?thesis
        by (auto simp: update_conv' split: option.split)
    next
      case False
      with Dir show ?thesis
        by (auto simp: update_conv' delete_conv' split: option.split)
    qed
  qed
qed simp_all

lemma lookup_put_diverge: "diverge p q \<Longrightarrow> lookup q (put p v t) = lookup q t"
proof (induction p q arbitrary: t rule: diverge.induct)
  case (1 a p b q)
  show ?case
  proof (cases t)
    case (File x y)
    then show ?thesis by simp
  next
    case (Dir es)
    show ?thesis
    proof (cases "a = b")
      case True
      with 1 have d: "diverge p q" by simp
      then have "p \<noteq> []" by (cases p) auto
      with 1 d True Dir show ?thesis
        by (auto simp: update_conv' split: option.split)
    next
      case False
      with Dir show ?thesis
        by (auto simp: update_conv' split: option.split)
    qed
  qed
qed simp_all

lemma lookup_chain_diverge: "diverge p q \<Longrightarrow> lookup q (chain p) = None"
  by (induction p q rule: diverge.induct) auto

lemma lookup_mkdir_parents_diverge:
  "diverge p q \<Longrightarrow> mkdir_parents p t = Some t' \<Longrightarrow> lookup q t' = lookup q t"
proof (induction p q arbitrary: t t' rule: diverge.induct)
  case (1 a p b q)
  show ?case
  proof (cases t)
    case (File x y)
    with 1 show ?thesis by simp
  next
    case (Dir es)
    show ?thesis
    proof (cases "map_of es a")
      case None
      with 1 Dir show ?thesis
        by (auto simp: map_add_def lookup_chain_diverge split: option.split)
    next
      case (Some c)
      with "1.prems" Dir obtain c' where c': "mkdir_parents p c = Some c'"
        and t': "t' = Dir (AList.update a c' es)"
        by auto
      show ?thesis
      proof (cases "a = b")
        case True
        with "1.prems" have "diverge p q" by simp
        with "1.IH" c' have "lookup q c' = lookup q c" by blast
        with t' True Some Dir show ?thesis by (simp add: update_conv')
      next
        case False
        with t' Dir show ?thesis by (simp add: update_conv')
      qed
    qed
  qed
qed simp_all

lemma lookup_remove_self: "p \<noteq> [] \<Longrightarrow> lookup p (remove p t) = None"
proof (induction p arbitrary: t)
  case Nil
  then show ?case by simp
next
  case (Cons n p)
  show ?case
  proof (cases t)
    case (File x y)
    then show ?thesis by simp
  next
    case (Dir es)
    then show ?thesis
      using Cons.IH by (auto simp: update_conv' delete_conv' split: option.split)
  qed
qed

section \<open>The install path before the build\<close>

lemma seq_ret_unit [simp]: "seq m (ret ()) = m"
  by (rule ext) (simp add: seq_def bind_def ret_def split: prod.split result.split)







section \<open>Declining to overwrite an install\<close>

lemma main_split:
  "main w a = bind (before_overwrite w a) (\<lambda>(sysroot, patches).
     seq (confirm_overwrite a) (after_overwrite w a sysroot patches))"
  by (simp add: main_def before_overwrite_def after_overwrite_def seq_def bind_assoc)

lemma pre_keeps: "pre (keeps q)"
  by (simp add: pre_def keeps_def)

lemma keeps_fs_same: "fs_same m \<Longrightarrow> steps (keeps q) m"
  by (simp add: steps_def keeps_def fs_same_def)

lemma keeps_mkdir: "diverge p q \<Longrightarrow> steps (keeps q) (mkdir b p)"
  by (auto simp: steps_def keeps_def mkdir_def bind_def get_fs_def set_fs_def os_error_def halt_def
      mkdir_plain_def lookup_mkdir_parents_diverge lookup_put_diverge
      split: option.splits node.splits if_splits)

lemma keeps_unlink: "diverge p q \<Longrightarrow> steps (keeps q) (unlink p)"
  by (auto simp: steps_def keeps_def unlink_def bind_def get_fs_def set_fs_def os_error_def halt_def
      lookup_remove_diverge split: option.splits node.splits)

lemma keeps_remove_dir: "diverge p q \<Longrightarrow> steps (keeps q) (remove_dir w p)"
  by (auto simp: steps_def keeps_def remove_dir_def win_rmdir_def rmtree_def bind_def get_fs_def
      set_fs_def os_error_def halt_def Let_def lookup_remove_diverge
      split: option.splits node.splits)

lemmas keeps_leaf = pre_keeps fs_sames [THEN keeps_fs_same]

lemma keeps_clean_artifacts:
  "steps (keeps install_path) (bind (glob_star artifact_path) (\<lambda>fs. foreach fs unlink))"
  unfolding glob_star_def bind_assoc bind_ret
  by (intro struct keeps_leaf keeps_unlink)
     (auto simp: install_path_def artifact_path_def yasm_dir_def split: option.splits node.splits)

lemma keeps_before: "steps (keeps install_path) (before_overwrite w a)"
  unfolding before_overwrite_def stage_defs
  by (intro struct keeps_leaf keeps_clean_artifacts keeps_mkdir keeps_unlink keeps_remove_dir)
     (simp_all add: install_path_def artifact_path_def build_path_def source_path_def yasm_dir_def
      cmake_cache_def)


lemma nodecl_before: "steps (ext (\<lambda>e. \<not> declined e)) (before_overwrite w a)"
  unfolding before_overwrite_def stage_defs
  by (intro struct ext_leaf; simp add: declined_def confirm_q_def overwrite_q_def split: option.split)

lemma noask_after: "steps (ext (\<lambda>e. \<not> is_ask e)) (after_overwrite w a sr ps)"
  unfolding after_overwrite_def
  by (intro struct pre_ext noask_clone_stage noask_configure_stage noask_build_stage
      noask_install_stage noask_sign_stage noask_archive_stage noask_cleanup_stage)

lemma declined_is_ask: "declined e \<Longrightarrow> is_ask e"
  by (cases e) (simp_all add: declined_def)

lemma nodecl_after: "steps (ext (\<lambda>e. \<not> declined e)) (after_overwrite w a sr ps)"
proof (rule steps_mono [OF _ noask_after])
  fix s s'
  assume "ext (\<lambda>e. \<not> is_ask e) s s'"
  then show "ext (\<lambda>e. \<not> declined e) s s'"
    unfolding ext_def list_all_iff using declined_is_ask by blast
qed

lemma ext_trans: "ext \<phi> s s1 \<Longrightarrow> ext \<phi> s1 s2 \<Longrightarrow> ext \<phi> s s2"
  unfolding ext_def by auto

lemma ext_added: "ext \<phi> s s' \<Longrightarrow> list_all \<phi> (added s s')"
  by (auto simp: ext_def added_def)

text \<open>The question about an existing install, in full.\<close>

lemma confirm_overwrite_cases:
  assumes "confirm_overwrite a s = (r, s')"
  shows "fs s' = fs s \<and>
    ((\<exists>l. l \<noteq> ''y'' \<and> prompt a \<and> lookup install_path (fs s) \<noteq> None \<and> r = Halt (Exit 1))
     \<or> ext (\<lambda>e. \<not> declined e) s s')"
  using assms
  by (auto simp: confirm_overwrite_def exists_def bind_def get_fs_def ret_def whenever_def
      input_def abort_def seq_def out_def emit_def halt_def ext_def declined_def
      split: if_splits list.splits)

text \<open>
  C6. When a run asks whether to overwrite the existing install and the operator answers
  anything but \<open>y\<close>, the process ends with status 1 and the tree below the install path
  is the one the run started with. Such a run has prompting on and found the install path
  in place.
\<close>

theorem declined_overwrite_leaves_install_untouched:
  assumes run: "run w a s = (st, s')"
    and ask: "Ask overwrite_q (Some l) \<in> set (added s s')"
    and no: "l \<noteq> ''y''"
  shows "st = Exit 1 \<and> lookup install_path (fs s') = lookup install_path (fs s)
    \<and> prompt a \<and> lookup install_path (fs s) \<noteq> None"
proof -
  have decl: "declined (Ask overwrite_q (Some l))"
    using no by (simp add: declined_def)
  have contra: False if "ext (\<lambda>e. \<not> declined e) s s'"
    using ext_added [OF that] ask decl by (auto simp: list_all_iff)
  obtain r where main: "main w a s = (r, s')" and st: "st = (case r of Done _ \<Rightarrow> Exit 0 | Halt e \<Rightarrow> e)"
    using run by (auto simp: run_def split: prod.splits result.splits)
  obtain r1 s1 where b: "before_overwrite w a s = (r1, s1)"
    by (cases "before_overwrite w a s")
  have e1: "ext (\<lambda>e. \<not> declined e) s s1"
    using stepsD [OF nodecl_before b] .
  have k1: "lookup install_path (fs s1) = lookup install_path (fs s)"
    using stepsD [OF keeps_before b] by (simp add: keeps_def)
  show ?thesis
  proof (cases r1)
    case (Halt e)
    with main b have "s' = s1"
      by (simp add: main_split bind_def)
    with e1 contra show ?thesis by blast
  next
    case (Done x)
    obtain sr ps where x: "x = (sr, ps)" by (cases x)
    obtain r2 s2 where c: "confirm_overwrite a s1 = (r2, s2)"
      by (cases "confirm_overwrite a s1")
    note cc = confirm_overwrite_cases [OF c]
    show ?thesis
    proof (cases r2)
      case (Halt e)
      with main b Done x c have fin: "s' = s2" "r = Halt e"
        by (simp_all add: main_split bind_def seq_def)
      from cc show ?thesis
      proof (elim conjE disjE exE)
        fix l'
        assume "fs s2 = fs s1" "prompt a" "lookup install_path (fs s1) \<noteq> None" "r2 = Halt (Exit 1)"
        with fin Halt k1 st show ?thesis by simp
      next
        assume "ext (\<lambda>e. \<not> declined e) s1 s2"
        with e1 fin contra ext_trans show ?thesis by blast
      qed
    next
      case Done2: (Done u)
      with main b Done x c have a: "after_overwrite w a sr ps s2 = (r, s')"
        by (simp add: main_split bind_def seq_def)
      have e3: "ext (\<lambda>e. \<not> declined e) s2 s'"
        using stepsD [OF nodecl_after a] .
      from cc Done2 have "ext (\<lambda>e. \<not> declined e) s1 s2" by auto
      with e1 e3 contra ext_trans show ?thesis by blast
    qed
  qed
qed

theorem declined_overwrite_leaves_install_untouched_witness:
  "Ask overwrite_q (Some ''n'')
     \<in> set (added (start stale_install [''y'', ''n''])
         (snd (run linux_world (plain_args\<lparr>prompt := True, clean := True\<rparr>)
            (start stale_install [''y'', ''n'']))))
   \<and> ''n'' \<noteq> ''y''
   \<and> fst (run linux_world (plain_args\<lparr>prompt := True, clean := True\<rparr>)
        (start stale_install [''y'', ''n''])) = Exit 1
   \<and> lookup install_path
        (fs (snd (run linux_world (plain_args\<lparr>prompt := True, clean := True\<rparr>)
           (start stale_install [''y'', ''n'']))))
      = Some (Dir [(''old.txt'', File [1] False)])"
proof -
  let ?s = "start stale_install [''y'', ''n'']"
  let ?a = "plain_args\<lparr>prompt := True, clean := True\<rparr>"
  have 1: "Ask overwrite_q (Some ''n'') \<in> set (added ?s (snd (run linux_world ?a ?s)))"
    by code_simp
  have 2: "''n'' \<noteq> ''y''"
    by simp
  have 3: "lookup install_path (fs ?s) = Some (Dir [(''old.txt'', File [1] False)])"
    by code_simp
  have 4: "run linux_world ?a ?s = (fst (run linux_world ?a ?s), snd (run linux_world ?a ?s))"
    by simp
  from declined_overwrite_leaves_install_untouched [OF 4 1 2] 1 2 3 show ?thesis
    by simp
qed

section \<open>Signing on Windows\<close>

lemma attempt_signtool [simp]: "attempt (Call (signtool_argv cert sv p) cwd rc) = Some (sv, rc)"
  by (simp add: attempt_def signtool_argv_def)

lemma attempt_Out [simp]: "attempt (Out l) = None"
  by (simp add: attempt_def)

lemma attempts_simps [simp]:
  "attempts [] = []"
  "attempts (e # es) = (case attempt e of None \<Rightarrow> attempts es | Some x \<Rightarrow> x # attempts es)"
  by (simp_all add: attempts_def List.map_filter_simps split: option.split)



lemma attempts_snoc_Out [simp]: "attempts (es @ [Out l]) = attempts es"
  by (induction es) (simp_all split: option.split)



section \<open>Signing on macOS\<close>
































lemma other_files_are_skipped:
  assumes "lookup (rp @ [file]) (fs s) = Some (File b x)" "\<not> x \<or> take 4 b \<noteq> fat_magic"
  shows "mac_sign_file w root rp file s = (Done (), s)"
  using assms
  by (auto simp: mac_sign_file_def access_x_def read_file_def get_fs_def bind_def ret_def Let_def)




text \<open>
  C3. The walk compares the first four bytes with the marker of a fat binary only. A thin
  Mach-O executable, which begins with \<open>CF FA ED FE\<close>, has its executable bit set and
  sits in the install tree of a run that signs on macOS, with the helper in place and every
  tool succeeding: the run ends with status 0 and \<^verbatim>\<open>codesign\<close> was never started.
\<close>

theorem thin_mach_o_binary_is_not_signed:
  "platform (mac_world thin_binary (\<lambda>n. 0)) = ''darwin''
   \<and> sign (plain_args\<lparr>sign := True\<rparr>)
   \<and> lookup (install_path @ [''bin'', ''yasm''])
        (fs (snd (run (mac_world thin_binary (\<lambda>n. 0)) (plain_args\<lparr>sign := True\<rparr>)
           (start checkout []))))
      = Some (File [0xCF, 0xFA, 0xED, 0xFE, 7] True)
   \<and> fst (run (mac_world thin_binary (\<lambda>n. 0)) (plain_args\<lparr>sign := True\<rparr>) (start checkout []))
      = Exit 0
   \<and> \<not> list_ex is_codesign
        (trace (snd (run (mac_world thin_binary (\<lambda>n. 0)) (plain_args\<lparr>sign := True\<rparr>)
           (start checkout []))))"
  by code_simp

section \<open>The compiler environment on Windows\<close>











section \<open>The archive\<close>

text \<open>What the archive stage writes for one file of the walk.\<close>

lemma archive_file_entry:
  assumes "lookup (rp @ [name]) (fs s) = Some (File b x)"
  shows "archive_file w root rp name s =
    (Done (),
     s\<lparr>archive := archive s @
          [((ZipInfo w (arc_name w (relpath_of w root) name))
              \<lparr>compress_type := ZIP_DEFLATED,
               external_attr := push_bit 16 (if x then mode_x else mode_r)\<rparr>, b)],
       trace := trace s @
          [Out (''Adding '' @ relpath_of w root @ ''/'' @ name @ ''...''),
           ZipWrite ((ZipInfo w (arc_name w (relpath_of w root) name))
              \<lparr>compress_type := ZIP_DEFLATED,
               external_attr := push_bit 16 (if x then mode_x else mode_r)\<rparr>) b]\<rparr>)"
  using assms
  by (simp add: archive_file_def Let_def seq_def bind_def out_def emit_def access_x_def
      read_file_def get_fs_def ret_def writestr_def)

text \<open>
  C2. The path of an entry is not always \<open>yasm/1.3.0/\<close> followed by the path of the file
  below the install root: line 269 strips backslashes as well as slashes from the ends of
  the directory's path. On Linux the file \<open>README\<close> in the directory \<open>doc\\<close> is written
  as \<open>yasm/1.3.0/doc/README\<close>, the very name of the entry for \<open>doc/README\<close>. The archive
  is \<open>yasm-1.3.0.zip\<close> in the artifact directory, every entry is deflated, and the
  attributes are \<open>0o755 << 16\<close> for the executable file and \<open>0o644 << 16\<close> for the others.
\<close>

theorem archive_path_loses_a_trailing_backslash:
  "lookup (install_path @ [''doc'' @ [bslash], ''README''])
      (fs (snd (run (installing_world odd_names) plain_args (start checkout []))))
     = Some (File [1] False)
   \<and> lookup (install_path @ [''doc'', ''README''])
      (fs (snd (run (installing_world odd_names) plain_args (start checkout []))))
     = Some (File [2] False)
   \<and> fst (run (installing_world odd_names) plain_args (start checkout [])) = Exit 0
   \<and> filter (\<lambda>e. case e of ZipOpen p c \<Rightarrow> True | _ \<Rightarrow> False)
        (trace (snd (run (installing_world odd_names) plain_args (start checkout []))))
     = [ZipOpen ''/w/artifacts/yasm-1.3.0.zip'' ZIP_DEFLATED]
   \<and> zip_entries (trace (snd (run (installing_world odd_names) plain_args (start checkout []))))
     = [(''yasm/1.3.0/doc/README'', ZIP_DEFLATED, push_bit 16 mode_r, [1]),
        (''yasm/1.3.0/doc/README'', ZIP_DEFLATED, push_bit 16 mode_r, [2]),
        (''yasm/1.3.0/bin/yasm'', ZIP_DEFLATED, push_bit 16 mode_x, [3])]"
  by code_simp

section \<open>The patches\<close>














































lemma halts_never: "(\<And>s. \<exists>a. fst (m s) = Done a) \<Longrightarrow> halts P m"
  by (auto simp: halts_def) (metis result.distinct(1))























end
